theory Spec2Isabelle
  imports Complex_Main
begin

section \<open>The snake game: data model\<close>

text \<open>
  The embedding follows the game component with the direction queue, the bounded food
  retry and the level curve (\<^verbatim>\<open>ClassicSnakeGame\<close>), and, in a section of its own,
  the tick of the first component of App.tsx, which has no queue and tests collisions
  against the whole snake. JavaScript numbers that hold grid coordinates, scores, levels
  and delays are integers here; a result of \<^verbatim>\<open>Math.random()\<close> is a real number.
\<close>

datatype Direction = UP | DOWN | LEFT | RIGHT

record Position =
  x :: int
  y :: int

definition GRID_SIZE :: int where
  "GRID_SIZE = 30"

definition MAX_FOOD_ATTEMPTS :: nat where
  "MAX_FOOD_ATTEMPTS = 100"

definition INITIAL_SNAKE :: "Position list" where
  "INITIAL_SNAKE = [\<lparr>x = GRID_SIZE div 2, y = GRID_SIZE div 2\<rparr>]"

definition INITIAL_DIRECTION :: Direction where
  "INITIAL_DIRECTION = RIGHT"

definition SCORE_PER_LEVEL :: int where
  "SCORE_PER_LEVEL = 5"

definition MAX_LEVEL :: int where
  "MAX_LEVEL = 10"

definition BASE_SPEED :: int where
  "BASE_SPEED = 200"

definition SPEED_DECREMENT :: int where
  "SPEED_DECREMENT = 15"

text \<open>
  The component's state: the React state cells, the two refs, and the number of
  \<^verbatim>\<open>setTimeout\<close> callbacks that \<^verbatim>\<open>resetGame\<close> has scheduled and that have
  not run yet. The \<^verbatim>\<open>scale\<close> cell belongs to the layout and is left out.
\<close>

record GameState =
  snake :: "Position list"
  food :: Position
  direction :: Direction
  gameOver :: bool
  level :: int
  intervalDelay :: int
  directionRef :: Direction
  queuedDirectionRef :: "Direction option"
  pendingRerolls :: nat

section \<open>Random positions and collision\<close>

text \<open>
  \<^verbatim>\<open>generateRandomPosition\<close> reads \<^verbatim>\<open>Math.random()\<close> twice; the pair of
  results is the argument. The product with the grid size is the exact real product:
  the rounding of the floating-point product is not modelled. The concrete draws used
  below are 0 or lie in the middle of a cell (such as 11/20, which gives 16.5), where
  the rounded and the exact product have the same floor.
\<close>

definition generateRandomPosition :: "real \<times> real \<Rightarrow> Position" where
  "generateRandomPosition r =
     \<lparr>x = \<lfloor>fst r * of_int GRID_SIZE\<rfloor>, y = \<lfloor>snd r * of_int GRID_SIZE\<rfloor>\<rparr>"

text \<open>The test \<^verbatim>\<open>segments.some(segment => segment.x === pos.x && segment.y === pos.y)\<close>.\<close>

definition onSnake :: "Position list \<Rightarrow> Position \<Rightarrow> bool" where
  "onSnake snakeSegments pos =
     list_ex (\<lambda>segment. x segment = x pos \<and> y segment = y pos) snakeSegments"

definition checkCollision :: "Position \<Rightarrow> Position list \<Rightarrow> bool" where
  "checkCollision pos snakeSegments =
     (x pos < 0 \<or> x pos \<ge> GRID_SIZE \<or> y pos < 0 \<or> y pos \<ge> GRID_SIZE \<or>
      onSnake snakeSegments pos)"

text \<open>The \<^verbatim>\<open>switch\<close> on the direction that offsets the copied head by one cell.\<close>

fun nextHead :: "Direction \<Rightarrow> Position \<Rightarrow> Position" where
  "nextHead UP head = head\<lparr>y := y head - 1\<rparr>"
| "nextHead DOWN head = head\<lparr>y := y head + 1\<rparr>"
| "nextHead LEFT head = head\<lparr>x := x head - 1\<rparr>"
| "nextHead RIGHT head = head\<lparr>x := x head + 1\<rparr>"

text \<open>\<^verbatim>\<open>willEatFood ? prevSnake : prevSnake.slice(0, -1)\<close>\<close>

definition snakeBodyToCheck :: "bool \<Rightarrow> Position list \<Rightarrow> Position list" where
  "snakeBodyToCheck willEatFood prevSnake =
     (if willEatFood then prevSnake else butlast prevSnake)"

section \<open>Food placement\<close>

text \<open>
  The retry loop shared by \<^verbatim>\<open>moveSnake\<close> and \<^verbatim>\<open>resetGame\<close>. \<open>rnd k\<close> is the
  pair of random numbers read by the \<open>k\<close>-th call of \<^verbatim>\<open>generateRandomPosition\<close>
  of one placement: call 0 comes before the loop, call \<open>attempts + 1\<close> is the
  redraw of the iteration that starts with counter \<open>attempts\<close>. The result is the
  final \<^verbatim>\<open>newFood\<close> and the final \<^verbatim>\<open>attempts\<close>.
\<close>

function foodLoop ::
  "(nat \<Rightarrow> real \<times> real) \<Rightarrow> Position list \<Rightarrow> Position \<Rightarrow> nat \<Rightarrow> Position \<times> nat" where
  "foodLoop rnd newSnake newFood attempts =
     (if onSnake newSnake newFood \<and> attempts < MAX_FOOD_ATTEMPTS
      then foodLoop rnd newSnake (generateRandomPosition (rnd (Suc attempts))) (Suc attempts)
      else (newFood, attempts))"
  by pat_completeness auto
termination
  by (relation "measure (\<lambda>(rnd, newSnake, newFood, attempts). MAX_FOOD_ATTEMPTS - attempts)") auto

declare foodLoop.simps [simp del]

definition placeFood :: "(nat \<Rightarrow> real \<times> real) \<Rightarrow> Position list \<Rightarrow> Position \<times> nat" where
  "placeFood rnd newSnake = foodLoop rnd newSnake (generateRandomPosition (rnd 0)) 0"

section \<open>The tick\<close>

text \<open>
  The first lines of \<^verbatim>\<open>moveSnake\<close> after the guard: the queued direction, when
  there is one, becomes the direction of the ref and of the state cell.
\<close>

definition consumeQueued :: "GameState \<Rightarrow> GameState" where
  "consumeQueued s =
     (case queuedDirectionRef s of
        None \<Rightarrow> s
      | Some newDirection \<Rightarrow>
          s\<lparr>directionRef := newDirection, direction := newDirection,
            queuedDirectionRef := None\<rparr>)"

text \<open>
  The body of the callback \<^verbatim>\<open>moveSnake\<close>. The callback is made by
  \<^verbatim>\<open>useCallback(..., [gameOver, food])\<close>: its \<^verbatim>\<open>gameOver\<close> and \<^verbatim>\<open>food\<close>
  are the values of the render that made it, here \<open>gameOverC\<close> and \<open>foodC\<close>; the
  refs and the snake handed to the \<^verbatim>\<open>setSnake\<close> updater are those of the state at
  the time of the call, here \<open>s\<close>. The updater is applied at once. The result is the
  new state together with the arguments of the \<^verbatim>\<open>setFood\<close> calls, in order.
  On an empty array the copied head has no coordinates: the offset gives
  \<^verbatim>\<open>NaN\<close>, which neither eats nor collides, the head is pushed and popped again, and
  the array stays empty.
\<close>

definition moveSnakeBody ::
  "(nat \<Rightarrow> real \<times> real) \<Rightarrow> bool \<Rightarrow> Position \<Rightarrow> GameState \<Rightarrow> GameState \<times> Position list" where
  "moveSnakeBody rnd gameOverC foodC s =
     (if gameOverC then (s, [])
      else
        let s1 = consumeQueued s; prevSnake = snake s1 in
        case prevSnake of
          [] \<Rightarrow> (s1, [])
        | first # rest \<Rightarrow>
            let head = nextHead (directionRef s1) first;
                willEatFood = (x head = x foodC \<and> y head = y foodC)
            in if checkCollision head (snakeBodyToCheck willEatFood prevSnake)
               then (s1\<lparr>gameOver := True\<rparr>, [])
               else
                 let newSnake = head # prevSnake in
                 if willEatFood
                 then let newFood = fst (placeFood rnd newSnake)
                      in (s1\<lparr>snake := newSnake, food := newFood\<rparr>, [newFood])
                 else (s1\<lparr>snake := butlast newSnake\<rparr>, []))"

text \<open>The state after a call of a callback that captured \<open>gameOverC\<close> and \<open>foodC\<close>.\<close>

definition moveSnakeCaptured ::
  "(nat \<Rightarrow> real \<times> real) \<Rightarrow> bool \<Rightarrow> Position \<Rightarrow> GameState \<Rightarrow> GameState" where
  "moveSnakeCaptured rnd gameOverC foodC s = fst (moveSnakeBody rnd gameOverC foodC s)"

text \<open>
  \<^verbatim>\<open>moveSnake\<close> as the render of the state \<open>s\<close> makes it, called on \<open>s\<close>: the
  captured values are those of \<open>s\<close>. \<open>setFoodCalls\<close> lists the arguments of the
  \<^verbatim>\<open>setFood\<close> calls of that call.
\<close>

definition moveSnake :: "(nat \<Rightarrow> real \<times> real) \<Rightarrow> GameState \<Rightarrow> GameState" where
  "moveSnake rnd s = moveSnakeCaptured rnd (gameOver s) (food s) s"

definition setFoodCalls :: "(nat \<Rightarrow> real \<times> real) \<Rightarrow> GameState \<Rightarrow> Position list" where
  "setFoodCalls rnd s = snd (moveSnakeBody rnd (gameOver s) (food s) s)"


section \<open>Reset, start and the deferred re-roll\<close>

definition resetGame :: "(nat \<Rightarrow> real \<times> real) \<Rightarrow> GameState \<Rightarrow> GameState" where
  "resetGame rnd s =
     (let newSnake = INITIAL_SNAKE;
          (drawn, attempts) = placeFood rnd newSnake;
          exhausted = (attempts \<ge> MAX_FOOD_ATTEMPTS);
          newFood = (if exhausted then \<lparr>x = - 1, y = - 1\<rparr> else drawn)
      in \<lparr>snake = newSnake, food = newFood, direction = INITIAL_DIRECTION,
          gameOver = False, level = 1, intervalDelay = BASE_SPEED,
          directionRef = INITIAL_DIRECTION, queuedDirectionRef = None,
          pendingRerolls = (if exhausted then Suc (pendingRerolls s) else pendingRerolls s)\<rparr>)"

text \<open>The scheduled callback \<^verbatim>\<open>() => setFood(generateRandomPosition())\<close>.\<close>

definition runReroll :: "real \<times> real \<Rightarrow> GameState \<Rightarrow> GameState" where
  "runReroll r s =
     (if pendingRerolls s = 0 then s
      else s\<lparr>food := generateRandomPosition r, pendingRerolls := pendingRerolls s - 1\<rparr>)"

text \<open>The state of the first render: the initial values of the \<^verbatim>\<open>useState\<close> cells.\<close>

definition initialState :: "real \<times> real \<Rightarrow> GameState" where
  "initialState r =
     \<lparr>snake = INITIAL_SNAKE, food = generateRandomPosition r,
      direction = INITIAL_DIRECTION, gameOver = False, level = 1,
      intervalDelay = BASE_SPEED, directionRef = INITIAL_DIRECTION,
      queuedDirectionRef = None, pendingRerolls = 0\<rparr>"

section \<open>Level and speed\<close>

definition calculateLevel :: "int \<Rightarrow> int" where
  "calculateLevel score = min MAX_LEVEL (score div SCORE_PER_LEVEL + 1)"

definition calculateSpeed :: "int \<Rightarrow> int" where
  "calculateSpeed lvl = max 50 (BASE_SPEED - (lvl - 1) * SPEED_DECREMENT)"

text \<open>The effect that follows a change of score or level.\<close>

definition levelEffect :: "GameState \<Rightarrow> GameState" where
  "levelEffect s =
     (let score = int (length (snake s)) - 1; newLevel = calculateLevel score
      in if newLevel \<noteq> level s
         then s\<lparr>level := newLevel, intervalDelay := calculateSpeed newLevel\<rparr>
         else s)"

section \<open>Keyboard input\<close>

definition handleKeyPress :: "string \<Rightarrow> GameState \<Rightarrow> GameState" where
  "handleKeyPress key s =
     (let currentDirection = directionRef s;
          newDirection =
            (if key = ''ArrowUp'' then (if currentDirection \<noteq> DOWN then Some UP else None)
             else if key = ''ArrowDown'' then (if currentDirection \<noteq> UP then Some DOWN else None)
             else if key = ''ArrowLeft'' then (if currentDirection \<noteq> RIGHT then Some LEFT else None)
             else if key = ''ArrowRight'' then (if currentDirection \<noteq> LEFT then Some RIGHT else None)
             else None)
      in case newDirection of
           None \<Rightarrow> s
         | Some d \<Rightarrow> s\<lparr>queuedDirectionRef := Some d\<rparr>)"

section \<open>The first component of App.tsx\<close>

text \<open>
  The component without the direction queue. Its state cells, without the layout's
  \<^verbatim>\<open>scale\<close>.
\<close>

record AppState =
  appSnake :: "Position list"
  appFood :: Position
  appDirection :: Direction
  appGameOver :: bool
  appLevel :: int
  appIntervalDelay :: int

text \<open>
  Its \<^verbatim>\<open>checkCollision\<close> takes the position alone and tests it against
  \<^verbatim>\<open>snake\<close>, the snake of the render that made the function, here \<open>snakeC\<close>.
\<close>

definition appCheckCollision :: "Position list \<Rightarrow> Position \<Rightarrow> bool" where
  "appCheckCollision snakeC pos =
     (x pos < 0 \<or> x pos \<ge> GRID_SIZE \<or> y pos < 0 \<or> y pos \<ge> GRID_SIZE \<or>
      onSnake snakeC pos)"

text \<open>
  Its placement loop has no bound on the number of redraws: it returns no value when
  every draw lies on the snake. \<open>rnd\<close> numbers the draws as in \<open>foodLoop\<close>.
\<close>

partial_function (option) appFoodLoop ::
  "(nat \<Rightarrow> real \<times> real) \<Rightarrow> Position list \<Rightarrow> Position \<Rightarrow> nat \<Rightarrow> Position option" where
  "appFoodLoop rnd newSnake newFood n =
     (if onSnake newSnake newFood
      then appFoodLoop rnd newSnake (generateRandomPosition (rnd (Suc n))) (Suc n)
      else Some newFood)"

text \<open>
  Its \<^verbatim>\<open>moveSnake\<close>, made by \<^verbatim>\<open>useCallback(..., [direction, food, gameOver, snake])\<close>:
  \<open>c\<close> is the state of the render that made the callback, \<open>s\<close> the state at the
  time of the call, whose snake the updater receives. The result is nothing when the
  placement loop does not end.
\<close>

definition appMoveSnakeCaptured ::
  "(nat \<Rightarrow> real \<times> real) \<Rightarrow> AppState \<Rightarrow> AppState \<Rightarrow> AppState option" where
  "appMoveSnakeCaptured rnd c s =
     (if appGameOver c then Some s
      else
        let prevSnake = appSnake s in
        case prevSnake of
          [] \<Rightarrow> Some s
        | first # rest \<Rightarrow>
            let head = nextHead (appDirection c) first
            in if appCheckCollision (appSnake c) head
               then Some (s\<lparr>appGameOver := True\<rparr>)
               else
                 let newSnake = head # prevSnake in
                 if x head = x (appFood c) \<and> y head = y (appFood c)
                 then (case appFoodLoop rnd newSnake (generateRandomPosition (rnd 0)) 0 of
                         None \<Rightarrow> None
                       | Some newFood \<Rightarrow> Some (s\<lparr>appSnake := newSnake, appFood := newFood\<rparr>))
                 else Some (s\<lparr>appSnake := butlast newSnake\<rparr>))"

definition appMoveSnake :: "(nat \<Rightarrow> real \<times> real) \<Rightarrow> AppState \<Rightarrow> AppState option" where
  "appMoveSnake rnd s = appMoveSnakeCaptured rnd s s"

text \<open>Its key handler sets the direction cell at once.\<close>

definition appHandleKeyPress :: "string \<Rightarrow> AppState \<Rightarrow> AppState" where
  "appHandleKeyPress key s =
     (if key = ''ArrowUp'' then (if appDirection s \<noteq> DOWN then s\<lparr>appDirection := UP\<rparr> else s)
      else if key = ''ArrowDown'' then (if appDirection s \<noteq> UP then s\<lparr>appDirection := DOWN\<rparr> else s)
      else if key = ''ArrowLeft'' then (if appDirection s \<noteq> RIGHT then s\<lparr>appDirection := LEFT\<rparr> else s)
      else if key = ''ArrowRight'' then (if appDirection s \<noteq> LEFT then s\<lparr>appDirection := RIGHT\<rparr> else s)
      else s)"

section \<open>Vocabulary of the specification\<close>

text \<open>
  The grid bounds test, and the three outcomes that the collision detector of the
  specification names. \<open>classify\<close> reads the disjunction of \<^verbatim>\<open>checkCollision\<close> in
  its order: the four bound tests are the wall, the \<^verbatim>\<open>some\<close> test is the body.
\<close>

definition inGrid :: "Position \<Rightarrow> bool" where
  "inGrid pos = (0 \<le> x pos \<and> x pos < GRID_SIZE \<and> 0 \<le> y pos \<and> y pos < GRID_SIZE)"

datatype Outcome = WALL | SELF | FREE

definition classify :: "Position \<Rightarrow> Position list \<Rightarrow> Outcome" where
  "classify head bodyToCheck =
     (if x head < 0 \<or> x head \<ge> GRID_SIZE \<or> y head < 0 \<or> y head \<ge> GRID_SIZE then WALL
      else if onSnake bodyToCheck head then SELF
      else FREE)"

text \<open>
  The candidate head of the next tick: the first cell offset in the direction that the
  tick commits (the queued direction when there is one). An empty snake has none.
\<close>

definition candidateHead :: "GameState \<Rightarrow> Position option" where
  "candidateHead s =
     (case snake s of
        [] \<Rightarrow> None
      | first # rest \<Rightarrow> Some (nextHead (directionRef (consumeQueued s)) first))"

text \<open>The entity invariant of the data model: at least one cell, all in range, no duplicates.\<close>

definition entityOk :: "Position list \<Rightarrow> bool" where
  "entityOk cells = (cells \<noteq> [] \<and> list_all inGrid cells \<and> distinct cells)"

fun opposite :: "Direction \<Rightarrow> Direction" where
  "opposite UP = DOWN"
| "opposite DOWN = UP"
| "opposite LEFT = RIGHT"
| "opposite RIGHT = LEFT"

text \<open>The key that requests a direction.\<close>

fun arrowKey :: "Direction \<Rightarrow> string" where
  "arrowKey UP = ''ArrowUp''"
| "arrowKey DOWN = ''ArrowDown''"
| "arrowKey LEFT = ''ArrowLeft''"
| "arrowKey RIGHT = ''ArrowRight''"

section \<open>Concrete inputs\<close>

text \<open>A random source that returns the same pair at every call.\<close>

definition constantDraws :: "real \<times> real \<Rightarrow> nat \<Rightarrow> real \<times> real" where
  "constantDraws r k = r"

definition cell :: "int \<Rightarrow> int \<Rightarrow> Position" where
  "cell cx cy = \<lparr>x = cx, y = cy\<rparr>"

text \<open>A running state between two ticks: nothing queued, level and delay settled.\<close>

definition running :: "Position list \<Rightarrow> Position \<Rightarrow> Direction \<Rightarrow> GameState" where
  "running cells f d =
     \<lparr>snake = cells, food = f, direction = d, gameOver = False,
      level = calculateLevel (int (length cells) - 1),
      intervalDelay = calculateSpeed (calculateLevel (int (length cells) - 1)),
      directionRef = d, queuedDirectionRef = None, pendingRerolls = 0\<rparr>"

text \<open>
  A run that ends with the food on the tail cell: a three-cell snake eats at (5,5) while
  every draw of the placement returns the cell (6,5) of its own tail, then the right
  arrow is pressed.
\<close>

definition tailFoodState :: GameState where
  "tailFoodState =
     handleKeyPress ''ArrowRight''
       (moveSnake (constantDraws (13 / 60, 11 / 60))
          (running [cell 5 6, cell 6 6, cell 6 5] (cell 5 5) UP))"

text \<open>
  The first tick of a session whose food was drawn at (16,15), with every draw of the
  placement returning (16,15) again.
\<close>

definition exhaustedTick :: GameState where
  "exhaustedTick =
     moveSnake (constantDraws (11 / 20, 31 / 60)) (initialState (11 / 20, 31 / 60))"

text \<open>
  A four-cell snake of the first component of App.tsx that has just gone up along a
  square, with the right arrow pressed: the next head is the cell of its tail.
\<close>

definition appTurnState :: AppState where
  "appTurnState =
     appHandleKeyPress ''ArrowRight''
       \<lparr>appSnake = [cell 5 5, cell 5 6, cell 6 6, cell 6 5], appFood = cell 4 4,
        appDirection = UP, appGameOver = False, appLevel = 1, appIntervalDelay = 200\<rparr>"


section \<open>Basic facts\<close>

lemma coords_eq_iff: "(x p = x q \<and> y p = y q) = ((p :: Position) = q)"
  by auto

lemma onSnake_iff: "onSnake segs p \<longleftrightarrow> p \<in> set segs"
  by (simp add: onSnake_def list_ex_iff coords_eq_iff)

lemma checkCollision_classify: "checkCollision pos body \<longleftrightarrow> classify pos body \<noteq> FREE"
  by (simp add: checkCollision_def classify_def)

lemma classify_WALL: "classify pos body = WALL \<longleftrightarrow> \<not> inGrid pos"
  by (auto simp: classify_def inGrid_def)

lemma classify_SELF: "classify pos body = SELF \<longleftrightarrow> inGrid pos \<and> pos \<in> set body"
  by (auto simp: classify_def inGrid_def onSnake_iff)

lemma classify_FREE: "classify pos body = FREE \<longleftrightarrow> inGrid pos \<and> pos \<notin> set body"
  by (auto simp: classify_def inGrid_def onSnake_iff)

lemma consumeQueued_frame:
  "snake (consumeQueued s) = snake s" "food (consumeQueued s) = food s"
  "gameOver (consumeQueued s) = gameOver s" "level (consumeQueued s) = level s"
  "intervalDelay (consumeQueued s) = intervalDelay s"
  "pendingRerolls (consumeQueued s) = pendingRerolls s"
  "queuedDirectionRef (consumeQueued s) = None"
  by (simp_all add: consumeQueued_def split: option.splits)

text \<open>The callback of the current render, unfolded.\<close>

lemma moveSnake_unfold:
  "moveSnake rnd s =
     (if gameOver s then s
      else
        let s1 = consumeQueued s; prevSnake = snake s1 in
        case prevSnake of
          [] \<Rightarrow> s1
        | first # rest \<Rightarrow>
            let head = nextHead (directionRef s1) first;
                willEatFood = (x head = x (food s1) \<and> y head = y (food s1))
            in if checkCollision head (snakeBodyToCheck willEatFood prevSnake)
               then s1\<lparr>gameOver := True\<rparr>
               else
                 let newSnake = head # prevSnake in
                 if willEatFood
                 then s1\<lparr>snake := newSnake, food := fst (placeFood rnd newSnake)\<rparr>
                 else s1\<lparr>snake := butlast newSnake\<rparr>)"
  by (simp add: moveSnake_def moveSnakeCaptured_def moveSnakeBody_def Let_def
      consumeQueued_frame split: list.splits)

lemma setFoodCalls_unfold:
  "setFoodCalls rnd s =
     (if gameOver s then []
      else
        case snake s of
          [] \<Rightarrow> []
        | first # rest \<Rightarrow>
            let head = nextHead (directionRef (consumeQueued s)) first;
                willEatFood = (x head = x (food s) \<and> y head = y (food s))
            in if checkCollision head (snakeBodyToCheck willEatFood (snake s)) then []
               else if willEatFood then [fst (placeFood rnd (head # snake s))]
               else [])"
  by (auto simp: setFoodCalls_def moveSnakeBody_def Let_def consumeQueued_frame
      split: list.splits)

text \<open>The tick on a running state with a non-empty snake, one equation per outcome.\<close>

lemma moveSnake_fatal:
  assumes "\<not> gameOver s" and "candidateHead s = Some head"
    and "classify head (snakeBodyToCheck (head = food s) (snake s)) \<noteq> FREE"
  shows "moveSnake rnd s = (consumeQueued s)\<lparr>gameOver := True\<rparr>"
  using assms
  by (auto simp: moveSnake_unfold candidateHead_def Let_def consumeQueued_frame coords_eq_iff
      checkCollision_classify split: list.splits)

lemma moveSnake_eat:
  assumes "\<not> gameOver s" and "candidateHead s = Some head" and "head = food s"
    and "classify head (snake s) = FREE"
  shows "moveSnake rnd s =
    (consumeQueued s)\<lparr>snake := head # snake s, food := fst (placeFood rnd (head # snake s))\<rparr>"
  using assms
  by (auto simp: moveSnake_unfold candidateHead_def Let_def consumeQueued_frame coords_eq_iff
      checkCollision_classify snakeBodyToCheck_def split: list.splits)

lemma moveSnake_plain:
  assumes "\<not> gameOver s" and "candidateHead s = Some head" and "head \<noteq> food s"
    and "classify head (butlast (snake s)) = FREE"
  shows "moveSnake rnd s = (consumeQueued s)\<lparr>snake := head # butlast (snake s)\<rparr>"
  using assms
  by (auto simp: moveSnake_unfold candidateHead_def Let_def consumeQueued_frame coords_eq_iff
      checkCollision_classify snakeBodyToCheck_def split: list.splits)

section \<open>The food loop\<close>

lemma foodLoop_exhausted:
  assumes "\<forall>k. attempts < k \<and> k \<le> MAX_FOOD_ATTEMPTS \<longrightarrow>
             onSnake newSnake (generateRandomPosition (rnd k))"
    and "onSnake newSnake newFood" and "attempts \<le> MAX_FOOD_ATTEMPTS"
  shows "foodLoop rnd newSnake newFood attempts =
           (if attempts = MAX_FOOD_ATTEMPTS then newFood
            else generateRandomPosition (rnd MAX_FOOD_ATTEMPTS), MAX_FOOD_ATTEMPTS)"
  using assms
proof (induction rnd newSnake newFood attempts rule: foodLoop.induct)
  case (1 rnd newSnake newFood attempts)
  show ?case
  proof (cases "attempts < MAX_FOOD_ATTEMPTS")
    case True
    then show ?thesis using 1 by (subst foodLoop.simps) auto
  next
    case False
    then show ?thesis using 1 by (subst foodLoop.simps) auto
  qed
qed

lemma placeFood_exhausted:
  assumes "\<forall>k \<le> MAX_FOOD_ATTEMPTS. onSnake newSnake (generateRandomPosition (rnd k))"
  shows "placeFood rnd newSnake = (generateRandomPosition (rnd MAX_FOOD_ATTEMPTS), MAX_FOOD_ATTEMPTS)"
proof -
  have "foodLoop rnd newSnake (generateRandomPosition (rnd 0)) 0 =
      (if 0 = MAX_FOOD_ATTEMPTS then generateRandomPosition (rnd 0)
       else generateRandomPosition (rnd MAX_FOOD_ATTEMPTS), MAX_FOOD_ATTEMPTS)"
    using assms by (intro foodLoop_exhausted) auto
  then show ?thesis
    by (simp add: placeFood_def MAX_FOOD_ATTEMPTS_def)
qed

lemma placeFood_constantDraws:
  "onSnake newSnake (generateRandomPosition r) \<Longrightarrow>
   placeFood (constantDraws r) newSnake = (generateRandomPosition r, MAX_FOOD_ATTEMPTS)"
  using placeFood_exhausted [of newSnake "constantDraws r"]
  by (simp add: constantDraws_def)

lemma placeFood_first_free:
  "\<not> onSnake newSnake (generateRandomPosition (rnd 0)) \<Longrightarrow>
   placeFood rnd newSnake = (generateRandomPosition (rnd 0), 0)"
  by (simp add: placeFood_def foodLoop.simps)

lemma foodLoop_found:
  "foodLoop rnd newSnake newFood attempts = (p, n) \<Longrightarrow> n < MAX_FOOD_ATTEMPTS \<Longrightarrow>
   \<not> onSnake newSnake p"
proof (induction rnd newSnake newFood attempts rule: foodLoop.induct)
  case (1 rnd newSnake newFood attempts)
  show ?case
  proof (cases "onSnake newSnake newFood \<and> attempts < MAX_FOOD_ATTEMPTS")
    case True
    with 1 show ?thesis by (subst (asm) (2) foodLoop.simps) auto
  next
    case False
    with 1 show ?thesis by (subst (asm) foodLoop.simps) auto
  qed
qed

lemma placeFood_found:
  "snd (placeFood rnd newSnake) < MAX_FOOD_ATTEMPTS \<Longrightarrow>
   fst (placeFood rnd newSnake) \<notin> set newSnake"
  using foodLoop_found [of rnd newSnake "generateRandomPosition (rnd 0)" 0
      "fst (placeFood rnd newSnake)" "snd (placeFood rnd newSnake)"]
  by (simp add: placeFood_def onSnake_iff)

lemma directionRef_moveSnake:
  "directionRef (moveSnake rnd s) =
     (if gameOver s then directionRef s else directionRef (consumeQueued s))"
  by (simp add: moveSnake_unfold Let_def split: list.splits)

lemma generateRandomPosition_mid: 
  "generateRandomPosition (13 / 60, 11 / 60) = cell 6 5"
  "generateRandomPosition (11 / 20, 31 / 60) = cell 16 15"
  "generateRandomPosition (1 / 2, 1 / 2) = cell 15 15"
  "generateRandomPosition (0, 0) = cell 0 0"
  by (simp_all add: generateRandomPosition_def GRID_SIZE_def cell_def)

section \<open>Invariant of the entity, reset\<close>

lemma entityOk_butlast_Cons:
  assumes "entityOk cells" and "inGrid head" and "head \<notin> set (butlast cells)"
  shows "entityOk (head # butlast cells)"
proof -
  have "set (butlast cells) \<subseteq> set cells"
    by (auto dest: in_set_butlastD)
  then show ?thesis
    using assms by (auto simp: entityOk_def list_all_iff distinct_butlast)
qed

lemma moveSnake_entityOk:
  assumes "entityOk (snake s)"
  shows "entityOk (snake (moveSnake rnd s))"
proof (cases "gameOver s")
  case True
  then show ?thesis using assms by (simp add: moveSnake_unfold)
next
  case False
  from assms obtain first rest where cells: "snake s = first # rest"
    by (cases "snake s") (auto simp: entityOk_def)
  define head where "head = nextHead (directionRef (consumeQueued s)) first"
  have cand: "candidateHead s = Some head"
    by (simp add: candidateHead_def cells head_def)
  show ?thesis
  proof (cases "classify head (snakeBodyToCheck (head = food s) (snake s)) = FREE")
    case fatal: False
    with False cand have "moveSnake rnd s = (consumeQueued s)\<lparr>gameOver := True\<rparr>"
      by (rule moveSnake_fatal)
    then show ?thesis using assms by (simp add: consumeQueued_frame)
  next
    case free: True
    show ?thesis
    proof (cases "head = food s")
      case True
      with free have c: "classify head (snake s) = FREE"
        by (simp add: snakeBodyToCheck_def)
      with False cand True have "snake (moveSnake rnd s) = head # snake s"
        by (simp add: moveSnake_eat)
      then show ?thesis
        using assms c by (simp add: entityOk_def classify_FREE)
    next
      case other: False
      with free have c: "classify head (butlast (snake s)) = FREE"
        by (simp add: snakeBodyToCheck_def)
      with False cand other have "snake (moveSnake rnd s) = head # butlast (snake s)"
        by (simp add: moveSnake_plain)
      then show ?thesis
        using assms c by (simp add: entityOk_butlast_Cons classify_FREE)
    qed
  qed
qed

lemma entityOk_start: "entityOk (snake (initialState r))" "entityOk (snake (resetGame rnd s))"
  by (simp_all add: initialState_def resetGame_def entityOk_def INITIAL_SNAKE_def inGrid_def
      GRID_SIZE_def Let_def case_prod_beta)

lemma resetGame_food_off_snake:
  "food (resetGame rnd s) \<notin> set (snake (resetGame rnd s))"
proof (cases "snd (placeFood rnd INITIAL_SNAKE) < MAX_FOOD_ATTEMPTS")
  case True
  then have "fst (placeFood rnd INITIAL_SNAKE) \<notin> set INITIAL_SNAKE"
    by (rule placeFood_found)
  with True show ?thesis
    by (simp add: resetGame_def Let_def case_prod_beta)
next
  case False
  then show ?thesis
    by (simp add: resetGame_def Let_def case_prod_beta INITIAL_SNAKE_def GRID_SIZE_def)
qed

lemma resetGame_exhausted:
  assumes "\<forall>k \<le> MAX_FOOD_ATTEMPTS. onSnake INITIAL_SNAKE (generateRandomPosition (rnd k))"
  shows "food (resetGame rnd s) = cell (- 1) (- 1)"
    and "pendingRerolls (resetGame rnd s) = Suc (pendingRerolls s)"
  using placeFood_exhausted [OF assms]
  by (simp_all add: resetGame_def Let_def case_prod_beta cell_def)

lemma exhaustedTick_eq:
  "exhaustedTick =
     \<lparr>snake = [cell 16 15, cell 15 15], food = cell 16 15, direction = RIGHT,
      gameOver = False, level = 1, intervalDelay = 200, directionRef = RIGHT,
      queuedDirectionRef = None, pendingRerolls = 0\<rparr>"
proof -
  have start: "\<not> gameOver (initialState (11 / 20, 31 / 60))"
    "candidateHead (initialState (11 / 20, 31 / 60)) = Some (cell 16 15)"
    "cell 16 15 = food (initialState (11 / 20, 31 / 60))"
    "classify (cell 16 15) (snake (initialState (11 / 20, 31 / 60))) = FREE"
    by (simp_all add: initialState_def generateRandomPosition_mid INITIAL_SNAKE_def
        INITIAL_DIRECTION_def cell_def candidateHead_def consumeQueued_def classify_def
        onSnake_def GRID_SIZE_def)
  have cells: "snake (initialState (11 / 20, 31 / 60)) = [cell 15 15]"
    by (simp add: initialState_def INITIAL_SNAKE_def GRID_SIZE_def cell_def)
  have placed: "placeFood (constantDraws (11 / 20, 31 / 60)) [cell 16 15, cell 15 15]
      = (cell 16 15, MAX_FOOD_ATTEMPTS)"
    using placeFood_constantDraws [of "[cell 16 15, cell 15 15]" "(11 / 20, 31 / 60)"]
    by (simp add: generateRandomPosition_mid onSnake_iff)
  show ?thesis
    unfolding exhaustedTick_def
    using moveSnake_eat [OF start, of "constantDraws (11 / 20, 31 / 60)"] placed cells
    by (simp add: initialState_def consumeQueued_def INITIAL_DIRECTION_def BASE_SPEED_def)
qed

lemma tailFoodState_eq:
  "tailFoodState =
     \<lparr>snake = [cell 5 5, cell 5 6, cell 6 6, cell 6 5], food = cell 6 5, direction = UP,
      gameOver = False, level = 1, intervalDelay = 200, directionRef = UP,
      queuedDirectionRef = Some RIGHT, pendingRerolls = 0\<rparr>"
proof -
  have start: "\<not> gameOver (running [cell 5 6, cell 6 6, cell 6 5] (cell 5 5) UP)"
    "candidateHead (running [cell 5 6, cell 6 6, cell 6 5] (cell 5 5) UP) = Some (cell 5 5)"
    "cell 5 5 = food (running [cell 5 6, cell 6 6, cell 6 5] (cell 5 5) UP)"
    "classify (cell 5 5) (snake (running [cell 5 6, cell 6 6, cell 6 5] (cell 5 5) UP)) = FREE"
    by (simp_all add: running_def cell_def candidateHead_def consumeQueued_def classify_def
        onSnake_def GRID_SIZE_def)
  have placed: "placeFood (constantDraws (13 / 60, 11 / 60))
      [cell 5 5, cell 5 6, cell 6 6, cell 6 5] = (cell 6 5, MAX_FOOD_ATTEMPTS)"
    using placeFood_constantDraws [of "[cell 5 5, cell 5 6, cell 6 6, cell 6 5]" "(13 / 60, 11 / 60)"]
    by (simp add: generateRandomPosition_mid onSnake_iff)
  have "moveSnake (constantDraws (13 / 60, 11 / 60))
         (running [cell 5 6, cell 6 6, cell 6 5] (cell 5 5) UP) =
       (running [cell 5 6, cell 6 6, cell 6 5] (cell 5 5) UP)
         \<lparr>snake := [cell 5 5, cell 5 6, cell 6 6, cell 6 5], food := cell 6 5\<rparr>"
    using moveSnake_eat [OF start, of "constantDraws (13 / 60, 11 / 60)"] placed
    by (simp add: running_def consumeQueued_def)
  then show ?thesis
    by (simp add: tailFoodState_def handleKeyPress_def running_def calculateLevel_def
        calculateSpeed_def MAX_LEVEL_def SCORE_PER_LEVEL_def BASE_SPEED_def SPEED_DECREMENT_def)
qed

lemma nextHead_moves: "nextHead d pos \<noteq> pos"
proof
  assume same: "nextHead d pos = pos"
  then have "x (nextHead d pos) = x pos" "y (nextHead d pos) = y pos"
    by simp_all
  then show False
    by (cases d) simp_all
qed

lemma moveSnake_keeps_food_off_snake:
  assumes "\<not> gameOver s" and "candidateHead s = Some head"
    and "classify head (snakeBodyToCheck (head = food s) (snake s)) = FREE"
    and "food s \<notin> set (snake s)"
    and "head = food s \<Longrightarrow> snd (placeFood rnd (head # snake s)) < MAX_FOOD_ATTEMPTS"
  shows "food (moveSnake rnd s) \<notin> set (snake (moveSnake rnd s))"
proof (cases "head = food s")
  case True
  with assms(3) have "classify head (snake s) = FREE"
    by (simp add: snakeBodyToCheck_def)
  with assms(1,2) True have "moveSnake rnd s =
      (consumeQueued s)\<lparr>snake := head # snake s, food := fst (placeFood rnd (head # snake s))\<rparr>"
    by (simp add: moveSnake_eat)
  then show ?thesis
    using placeFood_found [OF assms(5) [OF True]] by simp
next
  case False
  with assms(3) have "classify head (butlast (snake s)) = FREE"
    by (simp add: snakeBodyToCheck_def)
  with assms(1,2) False have "moveSnake rnd s = (consumeQueued s)\<lparr>snake := head # butlast (snake s)\<rparr>"
    by (simp add: moveSnake_plain)
  then show ?thesis
    using assms(4) False by (auto simp: consumeQueued_frame dest: in_set_butlastD)
qed

lemma runReroll_unchecked:
  "food (runReroll (1 / 2, 1 / 2) (resetGame (constantDraws (1 / 2, 1 / 2)) s))
     \<in> set (snake (runReroll (1 / 2, 1 / 2) (resetGame (constantDraws (1 / 2, 1 / 2)) s)))"
proof -
  have "\<forall>k \<le> MAX_FOOD_ATTEMPTS.
      onSnake INITIAL_SNAKE (generateRandomPosition (constantDraws (1 / 2, 1 / 2) k))"
    by (simp add: constantDraws_def generateRandomPosition_mid onSnake_iff INITIAL_SNAKE_def
        GRID_SIZE_def cell_def)
  then have "pendingRerolls (resetGame (constantDraws (1 / 2, 1 / 2)) s) = Suc (pendingRerolls s)"
    by (rule resetGame_exhausted)
  then show ?thesis
    by (simp add: runReroll_def generateRandomPosition_mid)
      (simp add: resetGame_def Let_def case_prod_beta INITIAL_SNAKE_def GRID_SIZE_def cell_def)
qed

lemma levelEffect_level:
  "level (levelEffect s) = calculateLevel (int (length (snake s)) - 1)"
  by (simp add: levelEffect_def Let_def)

lemma generateRandomPosition_inGrid:
  assumes "0 \<le> fst r" "fst r < 1" "0 \<le> snd r" "snd r < 1"
  shows "inGrid (generateRandomPosition r)"
  using assms by (simp add: generateRandomPosition_def inGrid_def GRID_SIZE_def floor_less_iff)

section \<open>Further facts about the tick\<close>

lemma moveSnake_current_render_guard: "gameOver s \<Longrightarrow> moveSnake rnd s = s"
  by (simp add: moveSnake_unfold)

lemma setFoodCalls_eat:
  assumes "\<not> gameOver s" and "candidateHead s = Some head" and "head = food s"
    and "classify head (snake s) = FREE"
  shows "setFoodCalls rnd s = [fst (placeFood rnd (head # snake s))]"
  using assms
  by (auto simp: setFoodCalls_unfold candidateHead_def Let_def coords_eq_iff
      checkCollision_classify snakeBodyToCheck_def split: list.splits)

lemma setFoodCalls_plain:
  assumes "\<not> gameOver s" and "candidateHead s = Some head" and "head \<noteq> food s"
  shows "setFoodCalls rnd s = []"
  using assms
  by (auto simp: setFoodCalls_unfold candidateHead_def Let_def coords_eq_iff
      split: list.splits)

lemma moveSnake_over_iff:
  assumes "\<not> gameOver s" and "candidateHead s = Some head"
  shows "gameOver (moveSnake rnd s) \<longleftrightarrow>
         classify head (snakeBodyToCheck (head = food s) (snake s)) \<noteq> FREE"
proof (cases "classify head (snakeBodyToCheck (head = food s) (snake s)) = FREE")
  case False
  with assms have "moveSnake rnd s = (consumeQueued s)\<lparr>gameOver := True\<rparr>"
    by (rule moveSnake_fatal)
  with False show ?thesis by simp
next
  case True
  show ?thesis
  proof (cases "head = food s")
    case same: True
    with True have "classify head (snake s) = FREE"
      by (simp add: snakeBodyToCheck_def)
    with assms same have "\<not> gameOver (moveSnake rnd s)"
      by (simp add: moveSnake_eat consumeQueued_frame)
    with True show ?thesis by simp
  next
    case other: False
    with True have "classify head (butlast (snake s)) = FREE"
      by (simp add: snakeBodyToCheck_def)
    with assms other have "\<not> gameOver (moveSnake rnd s)"
      by (simp add: moveSnake_plain consumeQueued_frame)
    with True show ?thesis by simp
  qed
qed



lemma appTurnState_eq:
  "appTurnState =
     \<lparr>appSnake = [cell 5 5, cell 5 6, cell 6 6, cell 6 5], appFood = cell 4 4,
      appDirection = RIGHT, appGameOver = False, appLevel = 1, appIntervalDelay = 200\<rparr>"
  by (simp add: appTurnState_def appHandleKeyPress_def)


text \<open>
  In the component with the queue, for an entity of two or more cells that meets the
  entity invariant, on a tick that does not eat, a candidate head equal to the cell the
  tail leaves in this tick is classified free: the body that is checked is the previous
  body without its last cell, the tick does not end the game, and the new snake is the
  head followed by the previous body without its last cell.
\<close>

lemma tail_cell_turn_is_free:
  assumes "\<not> gameOver s" and "2 \<le> length (snake s)" and "entityOk (snake s)"
    and "candidateHead s = Some head" and "head = last (snake s)" and "head \<noteq> food s"
  shows "snakeBodyToCheck (head = food s) (snake s) = butlast (snake s) \<and>
         snakeBodyToCheck (head = food s) (snake s) \<noteq> snake s \<and>
         classify head (snakeBodyToCheck (head = food s) (snake s)) = FREE \<and>
         \<not> checkCollision head (snakeBodyToCheck (head = food s) (snake s)) \<and>
         \<not> gameOver (moveSnake rnd s) \<and>
         snake (moveSnake rnd s) = head # butlast (snake s)"
proof -
  from assms(3) have ne: "snake s \<noteq> []" and grid: "list_all inGrid (snake s)"
    and dist: "distinct (snake s)"
    by (simp_all add: entityOk_def)
  have body: "snakeBodyToCheck (head = food s) (snake s) = butlast (snake s)"
    using assms(6) by (simp add: snakeBodyToCheck_def)
  have shorter: "butlast (snake s) \<noteq> snake s"
    using ne by (metis append_butlast_last_id append_self_conv not_Cons_self2)
  have "last (snake s) \<in> set (snake s)"
    using ne by simp
  with grid have inside: "inGrid head"
    by (simp add: assms(5) list_all_iff)
  have "distinct (butlast (snake s) @ [last (snake s)])"
    using ne dist by simp
  then have off: "head \<notin> set (butlast (snake s))"
    by (simp add: assms(5))
  from inside off have free: "classify head (butlast (snake s)) = FREE"
    by (simp add: classify_FREE)
  have step: "moveSnake rnd s = (consumeQueued s)\<lparr>snake := head # butlast (snake s)\<rparr>"
    using assms(1,4,6) free by (rule moveSnake_plain)
  show ?thesis
    using body shorter free step assms(1)
    by (simp add: checkCollision_classify consumeQueued_frame)
qed

section \<open>Claims\<close>


text \<open>
  C2. In a running state, when the candidate head (the head offset by one cell in the
  direction the tick commits) is classified as wall or as body, the tick sets the
  game-over flag and the snake is the one before the move; the food stays too.
\<close>

theorem fatal_move_never_applied:
  assumes "\<not> gameOver s" and "candidateHead s = Some head"
    and "classify head (snakeBodyToCheck (head = food s) (snake s)) \<in> {WALL, SELF}"
  shows "gameOver (moveSnake rnd s) \<and> snake (moveSnake rnd s) = snake s \<and>
         food (moveSnake rnd s) = food s"
proof -
  from assms(3) have "classify head (snakeBodyToCheck (head = food s) (snake s)) \<noteq> FREE"
    by auto
  with assms(1,2) have "moveSnake rnd s = (consumeQueued s)\<lparr>gameOver := True\<rparr>"
    by (rule moveSnake_fatal)
  then show ?thesis
    by (simp add: consumeQueued_frame)
qed

theorem fatal_move_never_applied_witness:
  "\<not> gameOver (running [cell 29 3, cell 28 3] (cell 4 4) RIGHT) \<and>
   candidateHead (running [cell 29 3, cell 28 3] (cell 4 4) RIGHT) = Some (cell 30 3) \<and>
   classify (cell 30 3) (snakeBodyToCheck (cell 30 3 = food (running [cell 29 3, cell 28 3] (cell 4 4) RIGHT))
      (snake (running [cell 29 3, cell 28 3] (cell 4 4) RIGHT))) = WALL \<and>
   gameOver (moveSnake (constantDraws (0, 0)) (running [cell 29 3, cell 28 3] (cell 4 4) RIGHT)) \<and>
   snake (moveSnake (constantDraws (0, 0)) (running [cell 29 3, cell 28 3] (cell 4 4) RIGHT))
     = [cell 29 3, cell 28 3] \<and>
   candidateHead (running [cell 5 5, cell 5 6, cell 6 6, cell 6 5, cell 7 5] (cell 4 4) RIGHT)
     = Some (cell 6 5) \<and>
   classify (cell 6 5) (snakeBodyToCheck
      (cell 6 5 = food (running [cell 5 5, cell 5 6, cell 6 6, cell 6 5, cell 7 5] (cell 4 4) RIGHT))
      (snake (running [cell 5 5, cell 5 6, cell 6 6, cell 6 5, cell 7 5] (cell 4 4) RIGHT))) = SELF \<and>
   gameOver (moveSnake (constantDraws (0, 0))
      (running [cell 5 5, cell 5 6, cell 6 6, cell 6 5, cell 7 5] (cell 4 4) RIGHT)) \<and>
   snake (moveSnake (constantDraws (0, 0))
      (running [cell 5 5, cell 5 6, cell 6 6, cell 6 5, cell 7 5] (cell 4 4) RIGHT))
     = [cell 5 5, cell 5 6, cell 6 6, cell 6 5, cell 7 5]"
  using fatal_move_never_applied
    [of "running [cell 29 3, cell 28 3] (cell 4 4) RIGHT" "cell 30 3" "constantDraws (0, 0)"]
    fatal_move_never_applied
    [of "running [cell 5 5, cell 5 6, cell 6 6, cell 6 5, cell 7 5] (cell 4 4) RIGHT" "cell 6 5"
        "constantDraws (0, 0)"]
  by (simp add: cell_def running_def candidateHead_def consumeQueued_def
      snakeBodyToCheck_def classify_def onSnake_def GRID_SIZE_def)

text \<open>
  C1. In the first component of App.tsx \<^verbatim>\<open>checkCollision\<close> tests the candidate
  head against the whole snake, tail included, on every tick. For the four-cell snake
  [(5,5),(5,6),(6,6),(6,5)] turning right, with the food elsewhere, the candidate head
  (6,5) is the cell the tail leaves in this tick; the test holds and the tick ends the
  game with the snake unchanged. The component with the queue checks the body without
  its last cell at the same state, and its tick moves the snake.
\<close>

theorem whole_snake_check_ends_game_on_tail_cell:
  "\<not> appGameOver appTurnState \<and>
   appSnake appTurnState = [cell 5 5, cell 5 6, cell 6 6, cell 6 5] \<and>
   entityOk (appSnake appTurnState) \<and>
   nextHead (appDirection appTurnState) (cell 5 5) = cell 6 5 \<and>
   cell 6 5 = last (appSnake appTurnState) \<and>
   cell 6 5 \<noteq> appFood appTurnState \<and>
   appCheckCollision (appSnake appTurnState) (cell 6 5) \<and>
   appMoveSnake rnd appTurnState = Some (appTurnState\<lparr>appGameOver := True\<rparr>) \<and>
   \<not> checkCollision (cell 6 5)
      (snakeBodyToCheck False [cell 5 5, cell 5 6, cell 6 6, cell 6 5]) \<and>
   \<not> gameOver (moveSnake rnd (running [cell 5 5, cell 5 6, cell 6 6, cell 6 5] (cell 4 4) RIGHT)) \<and>
   snake (moveSnake rnd (running [cell 5 5, cell 5 6, cell 6 6, cell 6 5] (cell 4 4) RIGHT))
     = [cell 6 5, cell 5 5, cell 5 6, cell 6 6]"
proof -
  have app: "appMoveSnake rnd appTurnState = Some (appTurnState\<lparr>appGameOver := True\<rparr>)"
    by (simp add: appMoveSnake_def appMoveSnakeCaptured_def appTurnState_eq appCheckCollision_def
        onSnake_def cell_def GRID_SIZE_def)
  have queued: "\<not> gameOver (moveSnake rnd (running [cell 5 5, cell 5 6, cell 6 6, cell 6 5] (cell 4 4) RIGHT)) \<and>
      snake (moveSnake rnd (running [cell 5 5, cell 5 6, cell 6 6, cell 6 5] (cell 4 4) RIGHT))
        = [cell 6 5, cell 5 5, cell 5 6, cell 6 6]"
    using tail_cell_turn_is_free
      [of "running [cell 5 5, cell 5 6, cell 6 6, cell 6 5] (cell 4 4) RIGHT" "cell 6 5" rnd]
    by (simp add: cell_def running_def candidateHead_def consumeQueued_def
        snakeBodyToCheck_def entityOk_def inGrid_def GRID_SIZE_def)
  show ?thesis
    using app queued
    by (simp add: appTurnState_eq appCheckCollision_def checkCollision_def snakeBodyToCheck_def
        onSnake_def entityOk_def inGrid_def cell_def GRID_SIZE_def)
qed

text \<open>
  C10. For an entity of exactly one cell, on a tick that does not eat the body that is
  checked is empty; on every tick the candidate head is never classified as body, so
  the tick ends the game exactly when the candidate head is outside the grid.
\<close>

theorem single_cell_entity_ends_only_at_wall:
  assumes "\<not> gameOver s" and "snake s = [only]" and "candidateHead s = Some head"
  shows "(head \<noteq> food s \<longrightarrow> snakeBodyToCheck (head = food s) (snake s) = []) \<and>
         classify head (snakeBodyToCheck (head = food s) (snake s)) \<noteq> SELF \<and>
         (gameOver (moveSnake rnd s) \<longleftrightarrow>
            classify head (snakeBodyToCheck (head = food s) (snake s)) = WALL) \<and>
         (gameOver (moveSnake rnd s) \<longleftrightarrow> \<not> inGrid head)"
proof -
  let ?body = "snakeBodyToCheck (head = food s) (snake s)"
  have body: "head \<noteq> food s \<Longrightarrow> ?body = []"
    using assms(2) by (simp add: snakeBodyToCheck_def)
  from assms(2,3) have "head = nextHead (directionRef (consumeQueued s)) only"
    by (simp add: candidateHead_def)
  then have "head \<noteq> only"
    by (simp add: nextHead_moves)
  then have off: "head \<notin> set ?body"
    using assms(2) by (auto simp: snakeBodyToCheck_def)
  then have noself: "classify head ?body \<noteq> SELF"
    by (simp add: classify_SELF)
  have over: "gameOver (moveSnake rnd s) \<longleftrightarrow> \<not> inGrid head"
  proof (cases "inGrid head")
    case True
    with off have free: "classify head ?body = FREE"
      by (simp add: classify_FREE)
    have "\<not> gameOver (moveSnake rnd s)"
    proof (cases "head = food s")
      case True
      with free have "classify head (snake s) = FREE"
        by (simp add: snakeBodyToCheck_def)
      with assms(1,3) True show ?thesis
        by (simp add: moveSnake_eat consumeQueued_frame)
    next
      case False
      with free have "classify head (butlast (snake s)) = FREE"
        by (simp add: snakeBodyToCheck_def)
      with assms(1,3) False show ?thesis
        by (simp add: moveSnake_plain consumeQueued_frame)
    qed
    with True show ?thesis by simp
  next
    case False
    then have "classify head ?body \<noteq> FREE"
      by (simp add: classify_FREE)
    with assms(1,3) have "moveSnake rnd s = (consumeQueued s)\<lparr>gameOver := True\<rparr>"
      by (rule moveSnake_fatal)
    then show ?thesis
      using False by simp
  qed
  show ?thesis
    using body noself over by (simp add: classify_WALL)
qed

theorem single_cell_entity_ends_only_at_wall_witness:
  "\<not> gameOver (running [cell 29 7] (cell 4 4) RIGHT) \<and>
   snake (running [cell 29 7] (cell 4 4) RIGHT) = [cell 29 7] \<and>
   candidateHead (running [cell 29 7] (cell 4 4) RIGHT) = Some (cell 30 7) \<and>
   cell 30 7 \<noteq> food (running [cell 29 7] (cell 4 4) RIGHT) \<and>
   gameOver (moveSnake (constantDraws (0, 0)) (running [cell 29 7] (cell 4 4) RIGHT)) \<and>
   \<not> inGrid (cell 30 7) \<and>
   classify (cell 30 7) [] = WALL"
  using single_cell_entity_ends_only_at_wall
    [of "running [cell 29 7] (cell 4 4) RIGHT" "cell 29 7" "cell 30 7" "constantDraws (0, 0)"]
  by (simp add: cell_def running_def candidateHead_def consumeQueued_def inGrid_def
      classify_def snakeBodyToCheck_def GRID_SIZE_def)

text \<open>
  C7. \<^verbatim>\<open>calculateLevel\<close> is the minimum of the maximal level and the floored
  quotient of the score by the score per level plus one; it never exceeds the maximal
  level and does not decrease when the score grows. \<^verbatim>\<open>calculateSpeed\<close> is the
  maximum of the minimal delay 50 and the base delay minus the decrement for each level
  above the first; it never drops below 50 and does not increase when the level grows,
  hence not when the score grows. All of this holds for every integer, in particular
  for scores from 0 and levels from 1.
\<close>

theorem level_and_speed_curves:
  "calculateLevel score = min MAX_LEVEL (score div SCORE_PER_LEVEL + 1) \<and>
   calculateLevel score \<le> MAX_LEVEL \<and>
   (score \<le> score' \<longrightarrow> calculateLevel score \<le> calculateLevel score') \<and>
   calculateSpeed lvl = max 50 (BASE_SPEED - (lvl - 1) * SPEED_DECREMENT) \<and>
   50 \<le> calculateSpeed lvl \<and>
   (lvl \<le> lvl' \<longrightarrow> calculateSpeed lvl' \<le> calculateSpeed lvl) \<and>
   (score \<le> score' \<longrightarrow>
      calculateSpeed (calculateLevel score') \<le> calculateSpeed (calculateLevel score))"
proof -
  have mono_level: "calculateLevel score \<le> calculateLevel score'" if "score \<le> score'"
  proof -
    from that have "score div SCORE_PER_LEVEL \<le> score' div SCORE_PER_LEVEL"
      by (simp add: SCORE_PER_LEVEL_def zdiv_mono1)
    then show ?thesis
      by (simp add: calculateLevel_def min_le_iff_disj)
  qed
  have mono_speed: "calculateSpeed lvl' \<le> calculateSpeed lvl" if "lvl \<le> lvl'"
  proof -
    from that have "(lvl - 1) * SPEED_DECREMENT \<le> (lvl' - 1) * SPEED_DECREMENT"
      by (simp add: SPEED_DECREMENT_def)
    then show ?thesis
      unfolding calculateSpeed_def by linarith
  qed
  have mono_both:
    "calculateSpeed (calculateLevel score') \<le> calculateSpeed (calculateLevel score)"
    if "score \<le> score'"
  proof -
    from that have "(calculateLevel score - 1) * SPEED_DECREMENT
        \<le> (calculateLevel score' - 1) * SPEED_DECREMENT"
      using mono_level by (simp add: SPEED_DECREMENT_def)
    then show ?thesis
      unfolding calculateSpeed_def by linarith
  qed
  have bounds: "calculateLevel score \<le> MAX_LEVEL" "50 \<le> calculateSpeed lvl"
    by (simp_all add: calculateLevel_def calculateSpeed_def)
  show ?thesis
    using mono_level mono_speed mono_both bounds
    by (simp add: calculateLevel_def calculateSpeed_def)
qed

theorem level_and_speed_curves_witness:
  "(7 :: int) \<le> 12 \<and> calculateLevel 7 = 2 \<and> calculateLevel 12 = 3 \<and>
   calculateLevel 7 \<le> calculateLevel 12 \<and>
   (3 :: int) \<le> 11 \<and> calculateSpeed 3 = 170 \<and> calculateSpeed 11 = 50 \<and>
   calculateSpeed 11 \<le> calculateSpeed 3 \<and> calculateLevel 1000 = MAX_LEVEL"
  using level_and_speed_curves [of 7 12 3 11]
  by (simp add: calculateLevel_def calculateSpeed_def MAX_LEVEL_def SCORE_PER_LEVEL_def
      BASE_SPEED_def SPEED_DECREMENT_def)

text \<open>
  C3, as amended. Pressing the key of the exact opposite of the committed direction
  leaves the whole state as it was: the request is not stored and whatever was queued
  before stays queued. If nothing is queued, the committed direction after the next tick
  is the same as before. If a direction \<open>q\<close> was queued earlier in the same interval
  and the game is running, the next tick commits \<open>q\<close>.
\<close>

theorem reversal_dropped_nothing_else_pending:
  "handleKeyPress (arrowKey (opposite (directionRef s))) s = s \<and>
   queuedDirectionRef (handleKeyPress (arrowKey (opposite (directionRef s))) s)
     = queuedDirectionRef s \<and>
   (queuedDirectionRef s = None \<longrightarrow>
      directionRef (moveSnake rnd (handleKeyPress (arrowKey (opposite (directionRef s))) s))
        = directionRef s) \<and>
   (\<not> gameOver s \<and> queuedDirectionRef s = Some q \<longrightarrow>
      directionRef (moveSnake rnd (handleKeyPress (arrowKey (opposite (directionRef s))) s)) = q)"
proof -
  have dropped: "handleKeyPress (arrowKey (opposite (directionRef s))) s = s"
    by (cases "directionRef s") (simp_all add: handleKeyPress_def)
  show ?thesis
    unfolding dropped
    by (simp add: directionRef_moveSnake consumeQueued_def)
qed

theorem reversal_dropped_nothing_else_pending_witness:
  "directionRef (running [cell 15 15] (cell 4 4) RIGHT) = RIGHT \<and>
   arrowKey (opposite RIGHT) = ''ArrowLeft'' \<and>
   queuedDirectionRef (running [cell 15 15] (cell 4 4) RIGHT) = None \<and>
   handleKeyPress ''ArrowLeft'' (running [cell 15 15] (cell 4 4) RIGHT)
     = running [cell 15 15] (cell 4 4) RIGHT \<and>
   directionRef (moveSnake (constantDraws (0, 0))
      (handleKeyPress ''ArrowLeft'' (running [cell 15 15] (cell 4 4) RIGHT))) = RIGHT"
  using reversal_dropped_nothing_else_pending
    [of "running [cell 15 15] (cell 4 4) RIGHT" "constantDraws (0, 0)" UP]
  by (simp add: running_def handleKeyPress_def)

text \<open>
  C3 as stated fails when a turn is already queued: from the first state of a session
  (committed direction right), the up arrow and then the left arrow are pressed with no
  tick between them. The left arrow is the exact opposite of the committed direction
  and is dropped, yet the committed direction after the next tick is up, not right.
\<close>

theorem reversal_after_pending_turn_counterexample:
  "directionRef (handleKeyPress ''ArrowUp'' (initialState (0, 0))) = RIGHT \<and>
   \<not> gameOver (handleKeyPress ''ArrowUp'' (initialState (0, 0))) \<and>
   arrowKey (opposite RIGHT) = ''ArrowLeft'' \<and>
   directionRef (moveSnake (constantDraws (0, 0))
      (handleKeyPress ''ArrowLeft'' (handleKeyPress ''ArrowUp'' (initialState (0, 0))))) = UP \<and>
   directionRef (moveSnake (constantDraws (0, 0))
      (handleKeyPress ''ArrowLeft'' (handleKeyPress ''ArrowUp'' (initialState (0, 0)))))
     \<noteq> directionRef (handleKeyPress ''ArrowUp'' (initialState (0, 0)))"
  by (simp add: directionRef_moveSnake handleKeyPress_def initialState_def consumeQueued_def
      INITIAL_DIRECTION_def)

text \<open>
  C8, as amended. In a running state a tick is successful (the game-over flag stays
  unset) exactly when the candidate head is classified free. A successful tick whose
  candidate head equals the food cell puts the head in front of the unchanged previous
  snake (the length grows by exactly one, the tail stays) and calls \<^verbatim>\<open>setFood\<close>
  exactly once, with the result of one run of the placement loop, which becomes the
  food; unless the retry budget ran out, that cell differs from the old food cell and
  is off the new snake. A successful tick whose candidate head differs from the food
  cell keeps the length, makes no \<^verbatim>\<open>setFood\<close> call and keeps the food. When the
  food cell is in the grid and not on the snake, a tick whose candidate head equals it
  is always successful.
\<close>

theorem growth_on_successful_tick:
  assumes "\<not> gameOver s" and "candidateHead s = Some head"
  shows "(\<not> gameOver (moveSnake rnd s) \<longleftrightarrow>
            classify head (snakeBodyToCheck (head = food s) (snake s)) = FREE) \<and>
         (head = food s \<and> inGrid (food s) \<and> food s \<notin> set (snake s) \<longrightarrow>
            \<not> gameOver (moveSnake rnd s)) \<and>
         (head = food s \<and> \<not> gameOver (moveSnake rnd s) \<longrightarrow>
            snake (moveSnake rnd s) = head # snake s \<and>
            length (snake (moveSnake rnd s)) = length (snake s) + 1 \<and>
            setFoodCalls rnd s = [food (moveSnake rnd s)] \<and>
            food (moveSnake rnd s) = fst (placeFood rnd (head # snake s)) \<and>
            (snd (placeFood rnd (head # snake s)) < MAX_FOOD_ATTEMPTS \<longrightarrow>
               food (moveSnake rnd s) \<noteq> food s \<and>
               food (moveSnake rnd s) \<notin> set (snake (moveSnake rnd s)))) \<and>
         (head \<noteq> food s \<and> \<not> gameOver (moveSnake rnd s) \<longrightarrow>
            snake (moveSnake rnd s) = head # butlast (snake s) \<and>
            length (snake (moveSnake rnd s)) = length (snake s) \<and>
            setFoodCalls rnd s = [] \<and>
            food (moveSnake rnd s) = food s)"
proof -
  let ?free = "classify head (snakeBodyToCheck (head = food s) (snake s)) = FREE"
  have success: "\<not> gameOver (moveSnake rnd s) \<longleftrightarrow> ?free"
    using moveSnake_over_iff [OF assms, of rnd] by simp
  have offered: "\<not> gameOver (moveSnake rnd s)"
    if "head = food s \<and> inGrid (food s) \<and> food s \<notin> set (snake s)"
  proof -
    from that have ?free
      by (simp add: classify_FREE snakeBodyToCheck_def)
    with success show ?thesis by simp
  qed
  have eating: "snake (moveSnake rnd s) = head # snake s \<and>
      length (snake (moveSnake rnd s)) = length (snake s) + 1 \<and>
      setFoodCalls rnd s = [food (moveSnake rnd s)] \<and>
      food (moveSnake rnd s) = fst (placeFood rnd (head # snake s)) \<and>
      (snd (placeFood rnd (head # snake s)) < MAX_FOOD_ATTEMPTS \<longrightarrow>
         food (moveSnake rnd s) \<noteq> food s \<and>
         food (moveSnake rnd s) \<notin> set (snake (moveSnake rnd s)))"
    if "head = food s \<and> \<not> gameOver (moveSnake rnd s)"
  proof -
    from that success have same: "head = food s" and free: "classify head (snake s) = FREE"
      by (auto simp: snakeBodyToCheck_def)
    have step: "moveSnake rnd s =
        (consumeQueued s)\<lparr>snake := head # snake s, food := fst (placeFood rnd (head # snake s))\<rparr>"
      using assms same free by (rule moveSnake_eat)
    have calls: "setFoodCalls rnd s = [fst (placeFood rnd (head # snake s))]"
      using assms same free by (rule setFoodCalls_eat)
    have moved: "fst (placeFood rnd (head # snake s)) \<notin> set (head # snake s)"
      if "snd (placeFood rnd (head # snake s)) < MAX_FOOD_ATTEMPTS"
      using that by (rule placeFood_found)
    show ?thesis
      using calls moved same by (auto simp: step)
  qed
  have plain: "snake (moveSnake rnd s) = head # butlast (snake s) \<and>
      length (snake (moveSnake rnd s)) = length (snake s) \<and>
      setFoodCalls rnd s = [] \<and>
      food (moveSnake rnd s) = food s"
    if "head \<noteq> food s \<and> \<not> gameOver (moveSnake rnd s)"
  proof -
    from that success have other: "head \<noteq> food s"
      and free: "classify head (butlast (snake s)) = FREE"
      by (auto simp: snakeBodyToCheck_def)
    have step: "moveSnake rnd s = (consumeQueued s)\<lparr>snake := head # butlast (snake s)\<rparr>"
      using assms other free by (rule moveSnake_plain)
    have calls: "setFoodCalls rnd s = []"
      using assms other by (rule setFoodCalls_plain)
    from assms(2) have "snake s \<noteq> []"
      by (auto simp: candidateHead_def)
    then show ?thesis
      using calls by (simp add: step consumeQueued_frame)
  qed
  show ?thesis
    using success offered eating plain by blast
qed

theorem growth_on_successful_tick_witness:
  "\<not> gameOver (running [cell 15 15] (cell 16 15) RIGHT) \<and>
   candidateHead (running [cell 15 15] (cell 16 15) RIGHT) = Some (cell 16 15) \<and>
   cell 16 15 = food (running [cell 15 15] (cell 16 15) RIGHT) \<and>
   inGrid (cell 16 15) \<and> cell 16 15 \<notin> set [cell 15 15] \<and>
   classify (cell 16 15) [cell 15 15] = FREE \<and>
   \<not> gameOver (moveSnake (constantDraws (0, 0)) (running [cell 15 15] (cell 16 15) RIGHT)) \<and>
   snake (moveSnake (constantDraws (0, 0)) (running [cell 15 15] (cell 16 15) RIGHT))
     = [cell 16 15, cell 15 15] \<and>
   length (snake (moveSnake (constantDraws (0, 0)) (running [cell 15 15] (cell 16 15) RIGHT))) = 2 \<and>
   setFoodCalls (constantDraws (0, 0)) (running [cell 15 15] (cell 16 15) RIGHT) = [cell 0 0] \<and>
   food (moveSnake (constantDraws (0, 0)) (running [cell 15 15] (cell 16 15) RIGHT)) = cell 0 0 \<and>
   \<not> gameOver (running [cell 15 15, cell 14 15] (cell 4 4) RIGHT) \<and>
   candidateHead (running [cell 15 15, cell 14 15] (cell 4 4) RIGHT) = Some (cell 16 15) \<and>
   cell 16 15 \<noteq> food (running [cell 15 15, cell 14 15] (cell 4 4) RIGHT) \<and>
   classify (cell 16 15) [cell 15 15] = FREE \<and>
   \<not> gameOver (moveSnake (constantDraws (0, 0)) (running [cell 15 15, cell 14 15] (cell 4 4) RIGHT)) \<and>
   snake (moveSnake (constantDraws (0, 0)) (running [cell 15 15, cell 14 15] (cell 4 4) RIGHT))
     = [cell 16 15, cell 15 15] \<and>
   length (snake (moveSnake (constantDraws (0, 0)) (running [cell 15 15, cell 14 15] (cell 4 4) RIGHT))) = 2 \<and>
   setFoodCalls (constantDraws (0, 0)) (running [cell 15 15, cell 14 15] (cell 4 4) RIGHT) = [] \<and>
   food (moveSnake (constantDraws (0, 0)) (running [cell 15 15, cell 14 15] (cell 4 4) RIGHT)) = cell 4 4"
proof -
  have placed: "placeFood (constantDraws (0, 0)) [cell 16 15, cell 15 15] = (cell 0 0, 0)"
    using placeFood_first_free [of "[cell 16 15, cell 15 15]" "constantDraws (0, 0)"]
    by (simp add: constantDraws_def generateRandomPosition_mid onSnake_iff cell_def)
  show ?thesis
    using growth_on_successful_tick
      [of "running [cell 15 15] (cell 16 15) RIGHT" "cell 16 15" "constantDraws (0, 0)"]
      growth_on_successful_tick
      [of "running [cell 15 15, cell 14 15] (cell 4 4) RIGHT" "cell 16 15" "constantDraws (0, 0)"]
      placed
    by (simp add: cell_def running_def candidateHead_def consumeQueued_def
        snakeBodyToCheck_def classify_def onSnake_def inGrid_def GRID_SIZE_def)
qed

text \<open>
  C8 as stated fails when the food lies on the snake: a three-cell snake with the food
  off its body eats while every draw of the placement lands on its tail cell, so the
  food stays there; the snake then turns into that cell. The candidate head equals the
  food cell, the full body is checked, the move is fatal and the length stays 4.
\<close>

theorem eating_move_onto_tail_counterexample:
  "entityOk (snake (running [cell 5 6, cell 6 6, cell 6 5] (cell 5 5) UP)) \<and>
   food (running [cell 5 6, cell 6 6, cell 6 5] (cell 5 5) UP)
     \<notin> set (snake (running [cell 5 6, cell 6 6, cell 6 5] (cell 5 5) UP)) \<and>
   \<not> gameOver tailFoodState \<and>
   candidateHead tailFoodState = Some (food tailFoodState) \<and>
   gameOver (moveSnake (constantDraws (0, 0)) tailFoodState) \<and>
   length (snake (moveSnake (constantDraws (0, 0)) tailFoodState)) = length (snake tailFoodState) \<and>
   length (snake (moveSnake (constantDraws (0, 0)) tailFoodState)) \<noteq> length (snake tailFoodState) + 1 \<and>
   food (moveSnake (constantDraws (0, 0)) tailFoodState) = food tailFoodState"
proof -
  have run: "\<not> gameOver tailFoodState"
    and cand: "candidateHead tailFoodState = Some (cell 6 5)"
    and meal: "food tailFoodState = cell 6 5"
    by (simp_all add: tailFoodState_eq candidateHead_def consumeQueued_def cell_def)
  have "classify (cell 6 5) (snakeBodyToCheck (cell 6 5 = food tailFoodState) (snake tailFoodState))
      \<noteq> FREE"
    by (simp add: tailFoodState_eq snakeBodyToCheck_def classify_def onSnake_def cell_def
        GRID_SIZE_def)
  with run cand have "moveSnake (constantDraws (0, 0)) tailFoodState
      = (consumeQueued tailFoodState)\<lparr>gameOver := True\<rparr>"
    by (rule moveSnake_fatal)
  then show ?thesis
    using run cand meal
    by (simp add: consumeQueued_frame running_def entityOk_def inGrid_def cell_def GRID_SIZE_def)
qed

text \<open>
  C4. The placement in \<^verbatim>\<open>moveSnake\<close> has no fallback. From the first state of a
  session with the food at (16,15), a tick eats; all 101 draws of the placement return
  (16,15), the cell of the new head. The loop stops with the counter at the budget, and
  the food is set to that cell: on the snake, inside the grid, with no re-roll
  scheduled. With every draw on the snake, \<^verbatim>\<open>resetGame\<close> sets the food to (-1,-1)
  and schedules one re-roll.
\<close>

theorem exhausted_placement_in_tick_has_no_fallback:
  "entityOk (snake (initialState (11 / 20, 31 / 60))) \<and>
   food (initialState (11 / 20, 31 / 60)) \<notin> set (snake (initialState (11 / 20, 31 / 60))) \<and>
   placeFood (constantDraws (11 / 20, 31 / 60)) [cell 16 15, cell 15 15]
     = (cell 16 15, MAX_FOOD_ATTEMPTS) \<and>
   snake exhaustedTick = [cell 16 15, cell 15 15] \<and>
   food exhaustedTick = cell 16 15 \<and>
   food exhaustedTick \<in> set (snake exhaustedTick) \<and>
   inGrid (food exhaustedTick) \<and>
   pendingRerolls exhaustedTick = 0 \<and>
   \<not> gameOver exhaustedTick \<and>
   food (resetGame (constantDraws (1 / 2, 1 / 2)) s) = cell (- 1) (- 1) \<and>
   pendingRerolls (resetGame (constantDraws (1 / 2, 1 / 2)) s) = Suc (pendingRerolls s)"
proof -
  have placed: "placeFood (constantDraws (11 / 20, 31 / 60)) [cell 16 15, cell 15 15]
      = (cell 16 15, MAX_FOOD_ATTEMPTS)"
    using placeFood_constantDraws [of "[cell 16 15, cell 15 15]" "(11 / 20, 31 / 60)"]
    by (simp add: generateRandomPosition_mid onSnake_iff)
  have "\<forall>k \<le> MAX_FOOD_ATTEMPTS.
      onSnake INITIAL_SNAKE (generateRandomPosition (constantDraws (1 / 2, 1 / 2) k))"
    by (simp add: constantDraws_def generateRandomPosition_mid onSnake_iff INITIAL_SNAKE_def
        GRID_SIZE_def cell_def)
  then have reset: "food (resetGame (constantDraws (1 / 2, 1 / 2)) s) = cell (- 1) (- 1)"
    "pendingRerolls (resetGame (constantDraws (1 / 2, 1 / 2)) s) = Suc (pendingRerolls s)"
    by (rule resetGame_exhausted)+
  have start: "food (initialState (11 / 20, 31 / 60))
      \<notin> set (snake (initialState (11 / 20, 31 / 60)))"
    by (simp add: initialState_def generateRandomPosition_mid INITIAL_SNAKE_def GRID_SIZE_def
        cell_def)
  show ?thesis
    using placed reset start entityOk_start(1) [of "(11 / 20, 31 / 60)"]
    by (simp add: exhaustedTick_eq inGrid_def GRID_SIZE_def cell_def)
qed

text \<open>
  C5. After the tick above the food lies on the snake, no re-roll is pending, and after
  the following tick, whatever is drawn, the food still lies on the snake.
\<close>

theorem food_stays_on_snake_after_exhaustion:
  "food exhaustedTick \<in> set (snake exhaustedTick) \<and>
   pendingRerolls exhaustedTick = 0 \<and>
   \<not> gameOver (moveSnake rnd exhaustedTick) \<and>
   snake (moveSnake rnd exhaustedTick) = [cell 17 15, cell 16 15] \<and>
   food (moveSnake rnd exhaustedTick) = cell 16 15 \<and>
   food (moveSnake rnd exhaustedTick) \<in> set (snake (moveSnake rnd exhaustedTick)) \<and>
   pendingRerolls (moveSnake rnd exhaustedTick) = 0"
proof -
  have "\<not> gameOver exhaustedTick" "candidateHead exhaustedTick = Some (cell 17 15)"
    "cell 17 15 \<noteq> food exhaustedTick"
    "classify (cell 17 15) (butlast (snake exhaustedTick)) = FREE"
    by (simp_all add: exhaustedTick_eq candidateHead_def consumeQueued_def cell_def
        classify_def onSnake_def GRID_SIZE_def)
  then have "moveSnake rnd exhaustedTick
      = (consumeQueued exhaustedTick)\<lparr>snake := cell 17 15 # butlast (snake exhaustedTick)\<rparr>"
    by (rule moveSnake_plain)
  then show ?thesis
    by (simp add: consumeQueued_frame exhaustedTick_eq)
qed

text \<open>
  C6. The first state of a session has the one-cell snake at the centre, direction
  right, nothing queued, level 1 and the base delay, but its food is a single draw with
  no test against the snake: the draw (1/2, 1/2) puts it on the snake's cell, and no
  re-roll is pending. \<^verbatim>\<open>resetGame\<close> never leaves the food on the snake.
\<close>

theorem first_food_is_one_unchecked_draw:
  "snake (initialState (1 / 2, 1 / 2)) = [cell 15 15] \<and>
   food (initialState (1 / 2, 1 / 2)) = cell 15 15 \<and>
   food (initialState (1 / 2, 1 / 2)) \<in> set (snake (initialState (1 / 2, 1 / 2))) \<and>
   pendingRerolls (initialState (1 / 2, 1 / 2)) = 0 \<and>
   snake (initialState r) = [cell (GRID_SIZE div 2) (GRID_SIZE div 2)] \<and>
   food (initialState r) = generateRandomPosition r \<and>
   directionRef (initialState r) = RIGHT \<and> direction (initialState r) = RIGHT \<and>
   queuedDirectionRef (initialState r) = None \<and>
   level (initialState r) = 1 \<and> intervalDelay (initialState r) = BASE_SPEED \<and>
   \<not> gameOver (initialState r) \<and>
   food (resetGame rnd s) \<notin> set (snake (resetGame rnd s))"
  using resetGame_food_off_snake [of rnd s]
  by (simp add: initialState_def generateRandomPosition_mid INITIAL_SNAKE_def
      INITIAL_DIRECTION_def GRID_SIZE_def cell_def)

end
